theory Spec2Isabelle
  imports Complex_Main
begin

section \<open>The floating countdown/quote widget (FloatingWidget)\<close>

subsection \<open>Data\<close>

text \<open>
  The payloads the widget keeps. Numbers that the code only stores and shows are reals;
  \<open>expected_death_date\<close> is the instant, in milliseconds since the epoch, that
  \<^verbatim>\<open>new Date(mortalityStats.expected_death_date).getTime()\<close> yields: the data model makes
  the field a calendar date, and parsing it is the platform's \<^verbatim>\<open>Date\<close>.
\<close>

record Quote =
  quote_id :: string
  quote_text :: string
  quote_author :: string
  quote_category :: string

record MortalityStats =
  days_lived :: int
  days_remaining :: int
  life_percentage :: real
  year_percentage :: real
  month_percentage :: real
  expected_death_date :: int

datatype widget_mode = ModeCountdown | ModeQuote

text \<open>
  The component's state: the five \<^verbatim>\<open>useState\<close> cells, the four \<^verbatim>\<open>Animated.Value\<close>s
  (each holding the value it was last set to, or the \<^verbatim>\<open>toValue\<close> its latest spring
  animation comes to rest at) and the \<^verbatim>\<open>gestureState\<close> ref.
\<close>

record widget =
  isMinimized :: bool
  mode :: widget_mode
  quote :: "Quote option"
  mortalityStats :: "MortalityStats option"
  userProfileId :: "string option"
  translateX :: real
  translateY :: real
  scale :: real
  opacity :: real
  gestureState :: "real \<times> real"

definition initial_widget :: "real \<Rightarrow> real \<Rightarrow> widget" where
  "initial_widget screenWidth screenHeight =
     \<lparr>isMinimized = False, mode = ModeCountdown, quote = None, mortalityStats = None,
      userProfileId = None,
      translateX = screenWidth - 120, translateY = screenHeight / 2 - 60,
      scale = 1, opacity = 9 / 10, gestureState = (0, 0)\<rparr>"

subsection \<open>Gestures\<close>

text \<open>
  The handler states of a pan gesture, as the gesture library reports them in
  \<^verbatim>\<open>nativeEvent.state\<close>; the state of a release is \<open>END\<close>.
\<close>

datatype gesture_handler_state = UNDETERMINED | FAILED | BEGAN | CANCELLED | ACTIVE | END

text \<open>
  What the name \<^verbatim>\<open>State\<close> is bound to in the widget's module is a parameter: \<open>None\<close>
  when the import yields \<^verbatim>\<open>undefined\<close>, otherwise the keys of the object. The source
  imports \<^verbatim>\<open>State\<close> from \<^verbatim>\<open>'react-native'\<close>, which exports no such name; the gesture
  library's table has the six states above under their own names.
\<close>

type_synonym state_table = "(string \<rightharpoonup> gesture_handler_state) option"

definition react_native_State :: state_table where
  "react_native_State = None"

definition gesture_handler_State :: state_table where
  "gesture_handler_State =
     Some [''UNDETERMINED'' \<mapsto> UNDETERMINED, ''FAILED'' \<mapsto> FAILED, ''BEGAN'' \<mapsto> BEGAN,
           ''CANCELLED'' \<mapsto> CANCELLED, ''ACTIVE'' \<mapsto> ACTIVE, ''END'' \<mapsto> END]"

datatype js_error = TypeError

text \<open>
  \<^verbatim>\<open>handleGestureEvent\<close> is an \<^verbatim>\<open>Animated.event\<close> mapping: every move of the pointer
  writes the gesture's translation into the two position values, so that during a drag
  the position of the widget is the translation of the gesture.
\<close>

definition handleGestureEvent :: "real \<Rightarrow> real \<Rightarrow> widget \<Rightarrow> widget" where
  "handleGestureEvent translationX translationY w =
     w\<lparr>translateX := translationX, translateY := translationY\<rparr>"

text \<open>
  \<^verbatim>\<open>handleGestureStateChange\<close>. The guard reads the property \<^verbatim>\<open>ENDED\<close> of
  \<^verbatim>\<open>State\<close>: reading a property of \<^verbatim>\<open>undefined\<close> throws, and a key that the object
  does not have reads as \<^verbatim>\<open>undefined\<close>, which is not strictly equal to any state.
\<close>

definition handleGestureStateChange ::
  "state_table \<Rightarrow> real \<Rightarrow> real \<Rightarrow> gesture_handler_state \<Rightarrow> real \<Rightarrow> real \<Rightarrow> widget
     \<Rightarrow> js_error + widget" where
  "handleGestureStateChange State_import screenWidth screenHeight st tx ty w =
     (case State_import of
        None \<Rightarrow> Inl TypeError
      | Some keys \<Rightarrow>
          if keys ''ENDED'' = Some st then
            (let finalX = (if tx < screenWidth / 2 then 20 else screenWidth - 120);
                 finalY = max 100 (min (screenHeight - 160) ty)
             in Inr (w\<lparr>translateX := finalX, translateY := finalY,
                        gestureState := (finalX, finalY)\<rparr>))
          else Inr w)"

text \<open>A drag: the pointer moves along a path, each point a gesture event.\<close>

fun drag :: "(real \<times> real) list \<Rightarrow> widget \<Rightarrow> widget" where
  "drag [] w = w"
| "drag ((x, y) # path) w = drag path (handleGestureEvent x y w)"

definition toggleMinimized :: "widget \<Rightarrow> widget" where
  "toggleMinimized w =
     w\<lparr>isMinimized := \<not> isMinimized w,
       scale := (if isMinimized w then 1 else 7 / 10),
       opacity := (if isMinimized w then 9 / 10 else 6 / 10)\<rparr>"

definition switchMode :: "widget \<Rightarrow> widget" where
  "switchMode w = w\<lparr>mode := (if mode w = ModeCountdown then ModeQuote else ModeCountdown)\<rparr>"

subsection \<open>The countdown\<close>

record time_remaining =
  years :: int
  days :: int
  hours :: int
  minutes :: int
  seconds :: int

definition no_time_remaining :: time_remaining where
  "no_time_remaining = \<lparr>years = 0, days = 0, hours = 0, minutes = 0, seconds = 0\<rparr>"

text \<open>
  \<^verbatim>\<open>formatTimeRemaining\<close>, with the wall clock \<^verbatim>\<open>new Date().getTime()\<close> as the argument
  \<open>now\<close>. Both instants are whole milliseconds, so \<open>timeDiff\<close> is an integer; in the
  branch that divides it is positive, where \<^verbatim>\<open>Math.floor(a / b)\<close> is \<open>a div b\<close> and
  \<^verbatim>\<open>a % b\<close> is \<open>a mod b\<close>. The year unit \<^verbatim>\<open>365.25 * 24 * 60 * 60 * 1000\<close> is
  31557600000.
\<close>

definition formatTimeRemaining :: "MortalityStats option \<Rightarrow> int \<Rightarrow> time_remaining" where
  "formatTimeRemaining stats now =
     (case stats of
        None \<Rightarrow> no_time_remaining
      | Some s \<Rightarrow>
          (let deathDate = expected_death_date s;
               timeDiff = deathDate - now
           in if timeDiff \<le> 0 then no_time_remaining
              else \<lparr>years = timeDiff div 31557600000,
                    days = (timeDiff mod 31557600000) div (24 * 60 * 60 * 1000),
                    hours = (timeDiff mod (24 * 60 * 60 * 1000)) div (60 * 60 * 1000),
                    minutes = (timeDiff mod (60 * 60 * 1000)) div (60 * 1000),
                    seconds = (timeDiff mod (60 * 1000)) div 1000\<rparr>))"

section \<open>The environment of the screens\<close>

text \<open>
  What the screens act on besides their own state: the persisted key-value store
  (\<^verbatim>\<open>AsyncStorage\<close>), the network, alerts, the error console and the router. A call to
  the store rejects for the keys listed in \<open>rejecting\<close> (a failing device store); the
  other fields log what the code did, oldest entry first.
\<close>

datatype http_request = Request (http_method: string) (path: string)

record world =
  items :: "string \<rightharpoonup> string"
  rejecting :: "string list"
  requests :: "http_request list"
  alerts :: "(string \<times> string) list"
  console :: "string list"
  navigation :: "string list"

datatype storage_error = StorageError

definition getItem :: "string \<Rightarrow> world \<Rightarrow> storage_error + string option" where
  "getItem k env = (if k \<in> set (rejecting env) then Inl StorageError else Inr (items env k))"

definition setItem :: "string \<Rightarrow> string \<Rightarrow> world \<Rightarrow> storage_error + world" where
  "setItem k v env =
     (if k \<in> set (rejecting env) then Inl StorageError
      else Inr (env\<lparr>items := (items env)(k \<mapsto> v)\<rparr>))"

definition removeItem :: "string \<Rightarrow> world \<Rightarrow> storage_error + world" where
  "removeItem k env =
     (if k \<in> set (rejecting env) then Inl StorageError
      else Inr (env\<lparr>items := (items env)(k := None)\<rparr>))"

definition alert :: "string \<Rightarrow> string \<Rightarrow> world \<Rightarrow> world" where
  "alert title message env = env\<lparr>alerts := alerts env @ [(title, message)]\<rparr>"

definition console_error :: "string \<Rightarrow> world \<Rightarrow> world" where
  "console_error message env = env\<lparr>console := console env @ [message]\<rparr>"

definition fetch :: "string \<Rightarrow> string \<Rightarrow> world \<Rightarrow> world" where
  "fetch m p env = env\<lparr>requests := requests env @ [Request m p]\<rparr>"

definition router_replace :: "string \<Rightarrow> world \<Rightarrow> world" where
  "router_replace href env = env\<lparr>navigation := navigation env @ [href]\<rparr>"

text \<open>
  What a \<^verbatim>\<open>fetch\<close> comes back with: the promise rejects (\<open>NetworkError\<close>), or it
  resolves to a response with its \<^verbatim>\<open>ok\<close> flag and the value its \<^verbatim>\<open>json()\<close> resolves
  to (\<open>None\<close> when \<^verbatim>\<open>json()\<close> rejects).
\<close>

datatype 'a fetch_outcome = NetworkError | HttpResponse (ok: bool) (json: "'a option")

text \<open>JavaScript truthiness of a \<^verbatim>\<open>string | null\<close>: neither null nor empty.\<close>

definition truthy :: "string option \<Rightarrow> bool" where
  "truthy v = (case v of None \<Rightarrow> False | Some str \<Rightarrow> str \<noteq> [])"

section \<open>The app entry (Index)\<close>

record index_screen =
  isLoading :: bool
  hasCompletedOnboarding :: bool

definition initial_index_screen :: index_screen where
  "initial_index_screen = \<lparr>isLoading = True, hasCompletedOnboarding = False\<rparr>"

definition checkOnboardingStatus :: "index_screen \<times> world \<Rightarrow> index_screen \<times> world" where
  "checkOnboardingStatus = (\<lambda>(scr, env).
     (case getItem ''onboardingCompleted'' env of
        Inl e \<Rightarrow>
          (scr\<lparr>hasCompletedOnboarding := False, isLoading := False\<rparr>,
           console_error ''Error checking onboarding status:'' env)
      | Inr onboardingCompleted \<Rightarrow>
          (case getItem ''userProfileId'' env of
             Inl e \<Rightarrow>
               (scr\<lparr>hasCompletedOnboarding := False, isLoading := False\<rparr>,
                console_error ''Error checking onboarding status:'' env)
           | Inr profileId \<Rightarrow>
               (scr\<lparr>hasCompletedOnboarding :=
                      (onboardingCompleted = Some ''true'' \<and> profileId \<noteq> None),
                    isLoading := False\<rparr>, env))))"

datatype index_view = LoadingView | Redirect string

definition Index :: "index_screen \<Rightarrow> index_view" where
  "Index scr =
     (if isLoading scr then LoadingView
      else if hasCompletedOnboarding scr then Redirect ''/(tabs)''
      else Redirect ''/onboarding'')"

section \<open>The home screen's life calendar (HomeScreen)\<close>

datatype week_style = weekDot | weekDotLived | weekDotCurrent | weekDotRemaining

definition weekNumber :: "nat \<Rightarrow> nat \<Rightarrow> int" where
  "weekNumber rowIndex weekIndex = int rowIndex * 52 + int weekIndex + 1"

definition isLived :: "int \<Rightarrow> int \<Rightarrow> bool" where
  "isLived weeks_lived n = (n \<le> weeks_lived)"

definition isCurrent :: "int \<Rightarrow> int \<Rightarrow> bool" where
  "isCurrent weeks_lived n = (n = weeks_lived + 1)"

definition isRemaining :: "int \<Rightarrow> int \<Rightarrow> bool" where
  "isRemaining weeks_lived n = (n > weeks_lived + 1)"

text \<open>
  The style array of one dot: the base style, then each of the three styles whose flag
  holds (\<^verbatim>\<open>flag && style\<close> contributes nothing when the flag is false).
\<close>

definition weekDotStyles :: "int \<Rightarrow> int \<Rightarrow> week_style list" where
  "weekDotStyles weeks_lived n =
     weekDot # (if isLived weeks_lived n then [weekDotLived] else [])
       @ (if isCurrent weeks_lived n then [weekDotCurrent] else [])
       @ (if isRemaining weeks_lived n then [weekDotRemaining] else [])"

text \<open>The grid: twenty rows of fifty-two dots.\<close>

definition life_calendar :: "int \<Rightarrow> week_style list list list" where
  "life_calendar weeks_lived =
     map (\<lambda>rowIndex. map (\<lambda>weekIndex. weekDotStyles weeks_lived (weekNumber rowIndex weekIndex))
                        [0..<52])
         [0..<20]"

section \<open>The widget's data refresh and rendering\<close>

text \<open>
  One guarded receipt inside a \<^verbatim>\<open>try\<close> block:
  \<^verbatim>\<open>if (response.ok) { const data = await response.json(); set(data); }\<close>.
  The result is \<open>None\<close> when control leaves for the \<^verbatim>\<open>catch\<close> block (the fetch or
  \<^verbatim>\<open>json()\<close> rejected), otherwise the state after the statement.
\<close>

definition receive :: "'a fetch_outcome \<Rightarrow> ('a \<Rightarrow> 's \<Rightarrow> 's) \<Rightarrow> 's \<Rightarrow> 's option" where
  "receive response setter s =
     (case response of
        NetworkError \<Rightarrow> None
      | HttpResponse k body \<Rightarrow>
          (if k then (case body of None \<Rightarrow> None | Some payload \<Rightarrow> Some (setter payload s))
           else Some s))"

text \<open>A fetch fails: the promise rejects, or the response is not ok.\<close>

definition fetch_failed :: "'a fetch_outcome \<Rightarrow> bool" where
  "fetch_failed response = (case response of NetworkError \<Rightarrow> True | HttpResponse k body \<Rightarrow> \<not> k)"

definition setMortalityStats :: "MortalityStats \<Rightarrow> widget \<Rightarrow> widget" where
  "setMortalityStats mortalityData w = w\<lparr>mortalityStats := Some mortalityData\<rparr>"

definition setQuote :: "Quote \<Rightarrow> widget \<Rightarrow> widget" where
  "setQuote quoteData w = w\<lparr>quote := Some quoteData\<rparr>"

text \<open>
  \<^verbatim>\<open>fetchData\<close>, given what the two requests come back with. Request paths are
  relative to \<^verbatim>\<open>BACKEND_URL\<close>.
\<close>

definition fetchData ::
  "MortalityStats fetch_outcome \<Rightarrow> Quote fetch_outcome \<Rightarrow> widget \<times> world \<Rightarrow> widget \<times> world" where
  "fetchData mortalityResponse quoteResponse = (\<lambda>(w, env).
     (case userProfileId w of
        None \<Rightarrow> (w, env)
      | Some profileId \<Rightarrow>
          if profileId = [] then (w, env)
          else
            (let env1 = fetch ''GET'' (''/api/mortality/'' @ profileId) env in
             (case receive mortalityResponse setMortalityStats w of
                None \<Rightarrow> (w, console_error ''Error fetching widget data:'' env1)
              | Some w1 \<Rightarrow>
                  (let env2 = fetch ''GET'' ''/api/quotes/daily'' env1 in
                   (case receive quoteResponse setQuote w1 of
                      None \<Rightarrow> (w1, console_error ''Error fetching widget data:'' env2)
                    | Some w2 \<Rightarrow> (w2, env2)))))))"

text \<open>
  What the widget shows. The countdown pane lists four of the five components, each with
  its label; the minimized panes show an icon (named here, an emoji in the source).
\<close>

datatype widget_view =
    MinimizedContent string
  | CountdownContent "(int \<times> string) list"
  | QuoteContent string string

definition renderCountdownContent :: "widget \<Rightarrow> time_remaining \<Rightarrow> widget_view" where
  "renderCountdownContent w timeRemaining =
     (if isMinimized w then MinimizedContent ''alarm clock''
      else CountdownContent
             [(years timeRemaining, ''Years''), (days timeRemaining, ''Days''),
              (hours timeRemaining, ''Hours''), (minutes timeRemaining, ''Min'')])"

definition renderQuoteContent :: "widget \<Rightarrow> widget_view" where
  "renderQuoteContent w =
     (if isMinimized w then MinimizedContent ''thought balloon''
      else QuoteContent
             (case quote w of
                None \<Rightarrow> ''Loading quote...''
              | Some q \<Rightarrow> if quote_text q = [] then ''Loading quote...'' else quote_text q)
             (case quote w of
                None \<Rightarrow> ''Unknown''
              | Some q \<Rightarrow> if quote_author q = [] then ''Unknown'' else quote_author q))"

text \<open>
  The body of the component at a render, with the wall clock read at that render:
  \<^verbatim>\<open>const timeRemaining = formatTimeRemaining()\<close>, then the pane of the current mode.
  The row of controls under the pane (the mode dots and the hint) does not depend on
  the clock and is left out.
\<close>

definition FloatingWidget :: "widget \<Rightarrow> int \<Rightarrow> widget_view" where
  "FloatingWidget w now =
     (let timeRemaining = formatTimeRemaining (mortalityStats w) now
      in if mode w = ModeCountdown then renderCountdownContent w timeRemaining
         else renderQuoteContent w)"

subsection \<open>The refresh effect and the life cycle of an instance\<close>










subsection \<open>Sample data\<close>

text \<open>
  Two snapshots as the backend would send them (expected death on 2100-01-01 and on
  2101-01-01, UTC), a quote, a widget that has loaded the first snapshot, and an
  environment in which onboarding has been completed.
\<close>

definition snapshot_2100 :: MortalityStats where
  "snapshot_2100 =
     \<lparr>days_lived = 12000, days_remaining = 17220, life_percentage = 41,
      year_percentage = 50, month_percentage = 50, expected_death_date = 4102444800000\<rparr>"

definition snapshot_2101 :: MortalityStats where
  "snapshot_2101 =
     \<lparr>days_lived = 12000, days_remaining = 17585, life_percentage = 40,
      year_percentage = 50, month_percentage = 50, expected_death_date = 4133980800000\<rparr>"

definition sample_quote :: Quote where
  "sample_quote =
     \<lparr>quote_id = ''q1'', quote_text = ''Memento mori'', quote_author = ''Anonymous'',
      quote_category = ''stoic''\<rparr>"

definition other_quote :: Quote where
  "other_quote =
     \<lparr>quote_id = ''q2'', quote_text = ''Carpe diem'', quote_author = ''Horace'',
      quote_category = ''classic''\<rparr>"

definition loaded_widget :: widget where
  "loaded_widget =
     (initial_widget 400 800)
       \<lparr>quote := Some sample_quote, mortalityStats := Some snapshot_2100,
        userProfileId := Some ''p1''\<rparr>"

definition onboarded_world :: world where
  "onboarded_world =
     \<lparr>items = [''userProfileId'' \<mapsto> ''p1'', ''onboardingCompleted'' \<mapsto> ''true''],
      rejecting = [], requests = [], alerts = [], console = [], navigation = []\<rparr>"


section \<open>The onboarding flow (OnboardingScreen)\<close>

text \<open>
  Strings are lists of ASCII characters. A digit is what \<^verbatim>\<open>\d\<close> matches; white space
  is the ASCII part of what \<^verbatim>\<open>trim\<close> and \<^verbatim>\<open>parseInt\<close> skip.
\<close>

definition is_digit :: "char \<Rightarrow> bool" where
  "is_digit c = (48 \<le> (of_char c :: nat) \<and> (of_char c :: nat) \<le> 57)"

definition is_white_space :: "char \<Rightarrow> bool" where
  "is_white_space c = ((of_char c :: nat) \<in> {9, 10, 11, 12, 13, 32})"

definition trim :: "string \<Rightarrow> string" where
  "trim str = rev (dropWhile is_white_space (rev (dropWhile is_white_space str)))"

text \<open>
  The platform's \<^verbatim>\<open>parseInt\<close> with no radix, as ECMAScript defines it: skip leading
  white space, take a sign, take a \<^verbatim>\<open>0x\<close> prefix as radix 16, read the longest prefix of
  digits of the radix; with no digit the result is NaN, here \<open>None\<close>.
\<close>

definition digit_value :: "char \<Rightarrow> nat option" where
  "digit_value c =
     (let n = (of_char c :: nat)
      in if 48 \<le> n \<and> n \<le> 57 then Some (n - 48)
         else if 97 \<le> n \<and> n \<le> 122 then Some (n - 87)
         else if 65 \<le> n \<and> n \<le> 90 then Some (n - 55)
         else None)"

definition is_radix_digit :: "nat \<Rightarrow> char \<Rightarrow> bool" where
  "is_radix_digit R c = (case digit_value c of None \<Rightarrow> False | Some v \<Rightarrow> v < R)"

definition radix_value :: "nat \<Rightarrow> string \<Rightarrow> int" where
  "radix_value R Z =
     foldl (\<lambda>acc c. acc * int R + int (case digit_value c of None \<Rightarrow> 0 | Some v \<Rightarrow> v)) 0 Z"

definition parseInt :: "string \<Rightarrow> int option" where
  "parseInt inputString =
     (let S = dropWhile is_white_space inputString;
          sign = (if S \<noteq> [] \<and> hd S = CHR ''-'' then - 1 else 1 :: int);
          S1 = (if S \<noteq> [] \<and> (hd S = CHR ''+'' \<or> hd S = CHR ''-'') then tl S else S);
          hex = (take 2 S1 = ''0x'' \<or> take 2 S1 = ''0X'');
          R = (if hex then 16 else 10);
          S2 = (if hex then drop 2 S1 else S1);
          Z = takeWhile (is_radix_digit R) S2
      in if Z = [] then None else Some (sign * radix_value R Z))"

text \<open>The regular expression \<^verbatim>\<open>/^\d{4}-\d{2}-\d{2}$/\<close>.\<close>

fun dateRegex_test :: "string \<Rightarrow> bool" where
  "dateRegex_test [y1, y2, y3, y4, h1, m1, m2, h2, d1, d2] =
     (is_digit y1 \<and> is_digit y2 \<and> is_digit y3 \<and> is_digit y4 \<and> h1 = CHR ''-''
      \<and> is_digit m1 \<and> is_digit m2 \<and> h2 = CHR ''-'' \<and> is_digit d1 \<and> is_digit d2)"
| "dateRegex_test str = False"

text \<open>
  \<^verbatim>\<open>validateBirthDate\<close>. The platform's \<^verbatim>\<open>Date\<close> is a parameter: \<open>getTime dateString\<close> is
  the time value of \<^verbatim>\<open>new Date(dateString)\<close>, \<open>None\<close> for an invalid date (NaN, which
  is not equal to itself); \<open>now\<close> is the time value of \<^verbatim>\<open>new Date()\<close>.
\<close>

definition validateBirthDate :: "(string \<Rightarrow> int option) \<Rightarrow> int \<Rightarrow> string \<Rightarrow> bool" where
  "validateBirthDate getTime now dateString =
     (if dateString = [] then False
      else if \<not> dateRegex_test dateString then False
      else (case getTime dateString of
              None \<Rightarrow> False
            | Some date \<Rightarrow> getTime dateString = Some date \<and> date \<le> now))"

record onboarding_screen =
  currentStep :: int
  birthDate :: string
  lifeExpectancy :: string
  estimatedLifeExpectancy :: int
  country :: string
  loading :: bool
  useCustomExpectancy :: bool

text \<open>
  The number that \<^verbatim>\<open>handleComplete\<close> validates and sends, NaN being \<open>None\<close>; a
  comparison with NaN is false.
\<close>

definition finalLifeExpectancy :: "onboarding_screen \<Rightarrow> int option" where
  "finalLifeExpectancy scr =
     (if useCustomExpectancy scr \<and> lifeExpectancy scr \<noteq> [] then parseInt (lifeExpectancy scr)
      else Some (estimatedLifeExpectancy scr))"

definition number_less :: "int option \<Rightarrow> int \<Rightarrow> bool" where
  "number_less x n = (case x of None \<Rightarrow> False | Some v \<Rightarrow> v < n)"

definition number_greater :: "int option \<Rightarrow> int \<Rightarrow> bool" where
  "number_greater x n = (case x of None \<Rightarrow> False | Some v \<Rightarrow> v > n)"

text \<open>
  \<^verbatim>\<open>handleComplete\<close>, given what the request comes back with: the payload of an ok
  response is the \<open>id\<close> of the created profile, and \<open>errorText\<close> is what
  \<^verbatim>\<open>response.text()\<close> resolves to (\<open>None\<close> when it rejects). Whatever path is taken,
  the \<^verbatim>\<open>finally\<close> block clears \<open>loading\<close>.
\<close>

definition handleComplete ::
  "string fetch_outcome \<Rightarrow> string option \<Rightarrow> onboarding_screen \<times> world
     \<Rightarrow> onboarding_screen \<times> world" where
  "handleComplete response errorText = (\<lambda>(scr, env).
     (let failed = (\<lambda>env'. alert ''Error'' ''Failed to complete setup. Please try again.''
                              (console_error ''Error completing onboarding:'' env'));
          done = scr\<lparr>loading := False\<rparr>
      in if number_less (finalLifeExpectancy scr) 20 \<or> number_greater (finalLifeExpectancy scr) 120
         then (done, alert ''Invalid Life Expectancy''
                       ''Please enter a life expectancy between 20 and 120 years.'' env)
         else
           (let env1 = fetch ''POST'' ''/api/profile'' env in
            (case response of
               NetworkError \<Rightarrow> (done, failed env1)
             | HttpResponse k body \<Rightarrow>
                 if k then
                   (case body of
                      None \<Rightarrow> (done, failed env1)
                    | Some profile_id \<Rightarrow>
                        (case setItem ''userProfileId'' profile_id env1 of
                           Inl e \<Rightarrow> (done, failed env1)
                         | Inr env2 \<Rightarrow>
                             (case setItem ''onboardingCompleted'' ''true'' env2 of
                                Inl e \<Rightarrow> (done, failed env2)
                              | Inr env3 \<Rightarrow> (done, router_replace ''/(tabs)'' env3))))
                 else
                   (case errorText of
                      None \<Rightarrow> (done, failed env1)
                    | Some txt \<Rightarrow>
                        (done, alert ''Error'' (''Failed to create profile: '' @ txt) env1))))))"

definition handleNext ::
  "(string \<Rightarrow> int option) \<Rightarrow> int \<Rightarrow> string fetch_outcome \<Rightarrow> string option
     \<Rightarrow> onboarding_screen \<times> world \<Rightarrow> onboarding_screen \<times> world" where
  "handleNext getTime now response errorText = (\<lambda>(scr, env).
     if currentStep scr = 1 then
       (if \<not> validateBirthDate getTime now (birthDate scr)
        then (scr, alert ''Invalid Date''
                     ''Please enter a valid birth date in YYYY-MM-DD format (e.g., 1990-12-25)''
                     env)
        else (scr\<lparr>currentStep := 2\<rparr>, env))
     else if currentStep scr = 2 then handleComplete response errorText (scr, env)
     else (scr, env))"

section \<open>The goals screen (GoalsScreen)\<close>

datatype goal_category = Career | Health | Personal | Financial | Relationship

datatype goal_priority = Low | Medium | High

datatype goal_status = Active | Completed | Paused

definition status_name :: "goal_status \<Rightarrow> string" where
  "status_name st = (case st of Active \<Rightarrow> ''active'' | Completed \<Rightarrow> ''completed''
                      | Paused \<Rightarrow> ''paused'')"

text \<open>
  The screen's state; the goals are whatever the backend sent. The filters are \<open>None\<close>
  for \<^verbatim>\<open>'all'\<close>.
\<close>

record 'g goals_screen =
  goals :: "'g list"
  goals_loading :: bool
  goals_userProfileId :: "string option"
  showAddForm :: bool
  title :: string
  description :: string
  category :: goal_category
  priority :: goal_priority
  targetDate :: string
  statusFilter :: "goal_status option"
  categoryFilter :: "goal_category option"

definition fetchGoals ::
  "'g list fetch_outcome \<Rightarrow> 'g goals_screen \<times> world \<Rightarrow> 'g goals_screen \<times> world" where
  "fetchGoals response = (\<lambda>(scr, env).
     (case goals_userProfileId scr of
        None \<Rightarrow> (scr, env)
      | Some profileId \<Rightarrow>
          if profileId = [] then (scr, env)
          else
            (let statusParam = (case statusFilter scr of None \<Rightarrow> []
                                | Some st \<Rightarrow> ''?status='' @ status_name st);
                 env1 = fetch ''GET'' (''/api/goals/'' @ profileId @ statusParam) env
             in (case receive response (\<lambda>payload s. s\<lparr>goals := payload\<rparr>) scr of
                   None \<Rightarrow> (scr\<lparr>goals_loading := False\<rparr>,
                             console_error ''Error fetching goals:'' env1)
                 | Some scr1 \<Rightarrow> (scr1\<lparr>goals_loading := False\<rparr>, env1)))))"

definition resetForm :: "'g goals_screen \<Rightarrow> 'g goals_screen" where
  "resetForm scr =
     scr\<lparr>title := [], description := [], category := Personal, priority := Medium,
         targetDate := []\<rparr>"

definition createGoal ::
  "unit fetch_outcome \<Rightarrow> 'g list fetch_outcome \<Rightarrow> 'g goals_screen \<times> world
     \<Rightarrow> 'g goals_screen \<times> world" where
  "createGoal response goalsResponse = (\<lambda>(scr, env).
     if \<not> truthy (goals_userProfileId scr)
     then (scr, alert ''Error'' ''User profile not found'' env)
     else if trim (title scr) = []
     then (scr, alert ''Validation Error'' ''Please enter a goal title'' env)
     else
       (let env1 = fetch ''POST'' ''/api/goals'' env in
        (case response of
           NetworkError \<Rightarrow>
             (scr\<lparr>goals_loading := False\<rparr>,
              alert ''Error'' ''Failed to create goal''
                (console_error ''Error creating goal:'' env1))
         | HttpResponse k body \<Rightarrow>
             if k then
               fetchGoals goalsResponse
                 ((resetForm scr)\<lparr>showAddForm := False\<rparr>,
                  alert ''Success'' ''Goal created successfully!'' env1)
             else (scr\<lparr>goals_loading := False\<rparr>,
                   alert ''Error'' ''Failed to create goal'' env1))))"

definition updateGoalStatus ::
  "string \<Rightarrow> goal_status \<Rightarrow> unit fetch_outcome \<Rightarrow> 'g list fetch_outcome
     \<Rightarrow> 'g goals_screen \<times> world \<Rightarrow> 'g goals_screen \<times> world" where
  "updateGoalStatus goalId newStatus response goalsResponse = (\<lambda>(scr, env).
     (let env1 = fetch ''PUT'' (''/api/goals/'' @ goalId) env in
      (case response of
         NetworkError \<Rightarrow>
           (scr\<lparr>goals_loading := False\<rparr>,
            alert ''Error'' ''Failed to update goal status''
              (console_error ''Error updating goal:'' env1))
       | HttpResponse k body \<Rightarrow>
           if k then
             (let (scr1, env2) = fetchGoals goalsResponse (scr, env1)
              in (scr1\<lparr>goals_loading := False\<rparr>, env2))
           else (scr\<lparr>goals_loading := False\<rparr>,
                 alert ''Error'' ''Failed to update goal status'' env1))))"

section \<open>The home screen's data flow (HomeScreen)\<close>

text \<open>The screen's state; profile, statistics and quote are whatever the backend sent.\<close>

record ('p, 'm, 'q) home_screen =
  userProfile :: "'p option"
  home_mortalityStats :: "'m option"
  home_quote :: "'q option"
  home_loading :: bool
  refreshing :: bool
  error :: "string option"

definition initial_home_screen :: "('p, 'm, 'q) home_screen" where
  "initial_home_screen =
     \<lparr>userProfile = None, home_mortalityStats = None, home_quote = None,
      home_loading = True, refreshing = False, error = None\<rparr>"

text \<open>
  \<^verbatim>\<open>fetchUserData\<close>: the three requests go out together; a rejected one, or a rejected
  \<^verbatim>\<open>json()\<close>, leads to the \<^verbatim>\<open>catch\<close> block. The result carries the returned boolean.
\<close>

definition fetchUserData ::
  "string \<Rightarrow> 'p fetch_outcome \<Rightarrow> 'm fetch_outcome \<Rightarrow> 'q fetch_outcome
     \<Rightarrow> ('p, 'm, 'q) home_screen \<times> world \<Rightarrow> bool \<times> ('p, 'm, 'q) home_screen \<times> world" where
  "fetchUserData profileId profileResponse mortalityResponse quoteResponse = (\<lambda>(scr, env).
     (let env1 = fetch ''GET'' ''/api/quotes/daily''
                   (fetch ''GET'' (''/api/mortality/'' @ profileId)
                      (fetch ''GET'' (''/api/profile/'' @ profileId) env));
          done = (\<lambda>s. s\<lparr>home_loading := False, refreshing := False\<rparr>);
          thrown = (False, done scr, console_error ''Error fetching user data:'' env1)
      in (case (profileResponse, mortalityResponse, quoteResponse) of
            (HttpResponse pk pbody, HttpResponse mk mbody, HttpResponse qk qbody) \<Rightarrow>
              if pk \<and> mk \<and> qk then
                (case (pbody, mbody, qbody) of
                   (Some profileData, Some mortalityData, Some quoteData) \<Rightarrow>
                     (True,
                      done (scr\<lparr>userProfile := Some profileData,
                                 home_mortalityStats := Some mortalityData,
                                 home_quote := Some quoteData, error := None\<rparr>),
                      env1)
                 | _ \<Rightarrow> thrown)
              else (False, done scr, console_error ''Failed to fetch user data'' env1)
          | _ \<Rightarrow> thrown)))"

text \<open>
  \<^verbatim>\<open>initializeUser\<close>. A rejected call to the store anywhere inside the \<^verbatim>\<open>try\<close> block
  leads to its \<^verbatim>\<open>catch\<close> block, which sets the error state.
\<close>

definition initializeUser ::
  "'p fetch_outcome \<Rightarrow> 'm fetch_outcome \<Rightarrow> 'q fetch_outcome
     \<Rightarrow> ('p, 'm, 'q) home_screen \<times> world \<Rightarrow> ('p, 'm, 'q) home_screen \<times> world" where
  "initializeUser profileResponse mortalityResponse quoteResponse = (\<lambda>(scr, env).
     (let caught = (\<lambda>s env'.
            (s\<lparr>error := Some ''Failed to load user data. Please try again.'',
               home_loading := False\<rparr>,
             console_error ''Error initializing user:'' env'))
      in (case getItem ''userProfileId'' env of
            Inl e \<Rightarrow> caught scr env
          | Inr storedProfileId \<Rightarrow>
              (case getItem ''onboardingCompleted'' env of
                 Inl e \<Rightarrow> caught scr env
               | Inr onboardingCompleted \<Rightarrow>
                   (case storedProfileId of
                      Some profileId \<Rightarrow>
                        if profileId \<noteq> [] \<and> onboardingCompleted = Some ''true'' then
                          (let (success, scr1, env1) =
                                 fetchUserData profileId profileResponse mortalityResponse
                                   quoteResponse (scr, env)
                           in if \<not> success then
                                (case removeItem ''userProfileId'' env1 of
                                   Inl e \<Rightarrow> caught scr1 env1
                                 | Inr env2 \<Rightarrow>
                                     (case removeItem ''onboardingCompleted'' env2 of
                                        Inl e \<Rightarrow> caught scr1 env2
                                      | Inr env3 \<Rightarrow> (scr1, router_replace ''/onboarding'' env3)))
                              else (scr1, env1))
                        else (scr, router_replace ''/onboarding'' env)
                    | None \<Rightarrow> (scr, router_replace ''/onboarding'' env))))))"

subsection \<open>Sample screens\<close>

text \<open>
  A goals screen with one goal loaded and a blank title in the form, and the second
  onboarding step with a custom life expectancy entered as a lone minus sign.
\<close>

definition sample_goals_screen :: "string goals_screen" where
  "sample_goals_screen =
     \<lparr>goals = [''Run a marathon''], goals_loading = False, goals_userProfileId = Some ''p1'',
      showAddForm = True, title = ''   '', description = [], category = Personal,
      priority = Medium, targetDate = [], statusFilter = None, categoryFilter = None\<rparr>"

definition minus_sign_screen :: onboarding_screen where
  "minus_sign_screen =
     \<lparr>currentStep = 2, birthDate = ''1990-12-25'', lifeExpectancy = ''-'',
      estimatedLifeExpectancy = 78, country = ''US'', loading = False,
      useCustomExpectancy = True\<rparr>"

definition fresh_world :: world where
  "fresh_world =
     \<lparr>items = Map.empty, rejecting = [], requests = [], alerts = [], console = [],
      navigation = []\<rparr>"

section \<open>Properties of the widget\<close>

lemma formatTimeRemaining_positive:
  "now < expected_death_date s \<Longrightarrow>
   formatTimeRemaining (Some s) now =
     \<lparr>years = (expected_death_date s - now) div 31557600000,
      days = ((expected_death_date s - now) mod 31557600000) div 86400000,
      hours = ((expected_death_date s - now) mod 86400000) div 3600000,
      minutes = ((expected_death_date s - now) mod 3600000) div 60000,
      seconds = ((expected_death_date s - now) mod 60000) div 1000\<rparr>"
  by (simp add: formatTimeRemaining_def Let_def)

lemma formatTimeRemaining_elapsed:
  "expected_death_date s \<le> now \<Longrightarrow> formatTimeRemaining (Some s) now = no_time_remaining"
  by (simp add: formatTimeRemaining_def Let_def)

lemma formatTimeRemaining_None: "formatTimeRemaining None now = no_time_remaining"
  by (simp add: formatTimeRemaining_def)

lemma div_of_mod_bounds:
  fixes t m d :: int
  assumes "0 < m" and "0 < d"
  shows "0 \<le> (t mod m) div d" and "(t mod m) div d \<le> (m - 1) div d"
proof -
  have "0 \<le> t mod m" and "t mod m \<le> m - 1"
    using assms(1) pos_mod_sign [of m t] pos_mod_bound [of m t] by simp_all
  then show "0 \<le> (t mod m) div d" and "(t mod m) div d \<le> (m - 1) div d"
    using assms(2) by (simp_all add: pos_imp_zdiv_nonneg_iff zdiv_mono1)
qed

lemma unit_bounds:
  fixes t :: int
  assumes "0 < t"
  shows "0 \<le> t div 31557600000"
    and "0 \<le> (t mod 31557600000) div 86400000" and "(t mod 31557600000) div 86400000 \<le> 365"
    and "0 \<le> (t mod 86400000) div 3600000" and "(t mod 86400000) div 3600000 < 24"
    and "0 \<le> (t mod 3600000) div 60000" and "(t mod 3600000) div 60000 < 60"
    and "0 \<le> (t mod 60000) div 1000" and "(t mod 60000) div 1000 < 60"
proof -
  have "0 \<le> t" using assms by simp
  then show "0 \<le> t div 31557600000"
    by (rule pos_imp_zdiv_nonneg_iff [THEN iffD2, rotated]) simp
  show "0 \<le> (t mod 31557600000) div 86400000"
    by (rule div_of_mod_bounds(1)) simp_all
  show "0 \<le> (t mod 86400000) div 3600000"
    by (rule div_of_mod_bounds(1)) simp_all
  show "0 \<le> (t mod 3600000) div 60000"
    by (rule div_of_mod_bounds(1)) simp_all
  show "0 \<le> (t mod 60000) div 1000"
    by (rule div_of_mod_bounds(1)) simp_all
  show "(t mod 31557600000) div 86400000 \<le> 365"
    by (rule order_trans [OF div_of_mod_bounds(2)]) simp_all
  show "(t mod 86400000) div 3600000 < 24"
    by (rule le_less_trans [OF div_of_mod_bounds(2)]) simp_all
  show "(t mod 3600000) div 60000 < 60"
    by (rule le_less_trans [OF div_of_mod_bounds(2)]) simp_all
  show "(t mod 60000) div 1000 < 60"
    by (rule le_less_trans [OF div_of_mod_bounds(2)]) simp_all
qed

lemma components_in_range:
  "0 \<le> years (formatTimeRemaining stats now)"
  "0 \<le> days (formatTimeRemaining stats now)"
  "days (formatTimeRemaining stats now) \<le> 365"
  "0 \<le> hours (formatTimeRemaining stats now)"
  "hours (formatTimeRemaining stats now) < 24"
  "0 \<le> minutes (formatTimeRemaining stats now)"
  "minutes (formatTimeRemaining stats now) < 60"
  "0 \<le> seconds (formatTimeRemaining stats now)"
  "seconds (formatTimeRemaining stats now) < 60"
proof -
  let ?r = "formatTimeRemaining stats now"
  have "(0 \<le> years ?r \<and> 0 \<le> days ?r \<and> days ?r \<le> 365 \<and> 0 \<le> hours ?r \<and> hours ?r < 24)
      \<and> (0 \<le> minutes ?r \<and> minutes ?r < 60 \<and> 0 \<le> seconds ?r \<and> seconds ?r < 60)"
  proof (cases stats)
    case None
    then show ?thesis
      by (simp add: formatTimeRemaining_None no_time_remaining_def)
  next
    case (Some s)
    show ?thesis
    proof (cases "now < expected_death_date s")
      case True
      then have pos: "0 < expected_death_date s - now" by simp
      show ?thesis
        unfolding Some formatTimeRemaining_positive [OF True] time_remaining.simps
        by (intro conjI unit_bounds [OF pos])
    next
      case False
      then have "expected_death_date s \<le> now" by simp
      then show ?thesis
        by (simp add: Some formatTimeRemaining_elapsed no_time_remaining_def)
    qed
  qed
  then show "0 \<le> years (formatTimeRemaining stats now)"
    "0 \<le> days (formatTimeRemaining stats now)"
    "days (formatTimeRemaining stats now) \<le> 365"
    "0 \<le> hours (formatTimeRemaining stats now)"
    "hours (formatTimeRemaining stats now) < 24"
    "0 \<le> minutes (formatTimeRemaining stats now)"
    "minutes (formatTimeRemaining stats now) < 60"
    "0 \<le> seconds (formatTimeRemaining stats now)"
    "seconds (formatTimeRemaining stats now) < 60"
    by blast+
qed

text \<open>
  C1. A release has to bring the widget to x = 20 or x = screenWidth - 120 and to a y
  between 100 and screenHeight - 160. It does not. With \<^verbatim>\<open>State\<close> as the source imports
  it, the handler throws at the guard. With the gesture library's table, which has no key
  \<^verbatim>\<open>ENDED\<close>, the guard is false in every handler state, the release \<open>END\<close> included,
  and the widget is left where the drag put it: released at (10, 900) on a screen of
  400 by 800 it stays at (10, 900), not at (20, 640).
\<close>

theorem drag_release_does_not_snap:
  "handleGestureStateChange react_native_State screenWidth screenHeight st tx ty (drag moves w)
     = Inl TypeError
   \<and> handleGestureStateChange gesture_handler_State screenWidth screenHeight st tx ty
       (drag moves w) = Inr (drag moves w)
   \<and> handleGestureStateChange gesture_handler_State 400 800 END 10 900
       (drag [(350, 40), (10, 900)] (initial_widget 400 800))
     = Inr (drag [(350, 40), (10, 900)] (initial_widget 400 800))
   \<and> translateX (drag [(350, 40), (10, 900)] (initial_widget 400 800)) = 10
   \<and> translateY (drag [(350, 40), (10, 900)] (initial_widget 400 800)) = 900"
  by (simp add: handleGestureStateChange_def react_native_State_def gesture_handler_State_def
        handleGestureEvent_def)

text \<open>
  C7. A short tap (\<^verbatim>\<open>onPress\<close>, \<open>toggleMinimized\<close>) flips the size between expanded and
  minimized and leaves the mode and the position as they were; a long press
  (\<^verbatim>\<open>onLongPress\<close>, \<open>switchMode\<close>) flips the mode between countdown and quote and leaves
  the size (the flag, the scale and the opacity) and the position as they were. Neither
  touches the stored snapshot, quote or profile id.
\<close>

theorem tap_and_long_press_frame:
  "isMinimized (toggleMinimized w) = (\<not> isMinimized w)
   \<and> mode (toggleMinimized w) = mode w
   \<and> translateX (toggleMinimized w) = translateX w
   \<and> translateY (toggleMinimized w) = translateY w
   \<and> gestureState (toggleMinimized w) = gestureState w
   \<and> quote (toggleMinimized w) = quote w
   \<and> mortalityStats (toggleMinimized w) = mortalityStats w
   \<and> userProfileId (toggleMinimized w) = userProfileId w
   \<and> mode (switchMode w) \<noteq> mode w
   \<and> mode (switchMode (switchMode w)) = mode w
   \<and> isMinimized (switchMode w) = isMinimized w
   \<and> scale (switchMode w) = scale w
   \<and> opacity (switchMode w) = opacity w
   \<and> translateX (switchMode w) = translateX w
   \<and> translateY (switchMode w) = translateY w
   \<and> gestureState (switchMode w) = gestureState w
   \<and> quote (switchMode w) = quote w
   \<and> mortalityStats (switchMode w) = mortalityStats w
   \<and> userProfileId (switchMode w) = userProfileId w"
  by (cases "mode w") (simp_all add: toggleMinimized_def switchMode_def)

text \<open>
  C9. Whatever the stored snapshot and the current instant, every component that
  \<open>formatTimeRemaining\<close> returns is non-negative, with hours below 24, minutes and
  seconds below 60 and days at most 365 (a year being 365.25 days); without a snapshot,
  and from the expected death date on, all components are zero; and the result does not
  read \<open>days_remaining\<close>, so a negative value there never shows in the countdown.
\<close>

theorem countdown_components_bounded:
  fixes stats :: "MortalityStats option" and s :: MortalityStats and now d :: int
  defines "r \<equiv> formatTimeRemaining stats now"
  shows "0 \<le> years r \<and> 0 \<le> days r \<and> days r \<le> 365 \<and> 0 \<le> hours r \<and> hours r < 24
       \<and> 0 \<le> minutes r \<and> minutes r < 60 \<and> 0 \<le> seconds r \<and> seconds r < 60
       \<and> formatTimeRemaining None now = no_time_remaining
       \<and> (expected_death_date s \<le> now \<longrightarrow> formatTimeRemaining (Some s) now = no_time_remaining)
       \<and> formatTimeRemaining (Some (s\<lparr>days_remaining := d\<rparr>)) now = formatTimeRemaining (Some s) now"
proof -
  have "formatTimeRemaining (Some (s\<lparr>days_remaining := d\<rparr>)) now = formatTimeRemaining (Some s) now"
    by (simp add: formatTimeRemaining_def)
  then show ?thesis
    unfolding r_def
    using components_in_range [of stats now] formatTimeRemaining_None [of now]
      formatTimeRemaining_elapsed [of s now]
    by blast
qed

theorem countdown_components_bounded_witness:
  "expected_death_date \<lparr>days_lived = 29220, days_remaining = - 3, life_percentage = 100,
       year_percentage = 1, month_percentage = 10, expected_death_date = 4102444800000\<rparr>
     \<le> 4102704000000
   \<and> formatTimeRemaining (Some \<lparr>days_lived = 29220, days_remaining = - 3, life_percentage = 100,
       year_percentage = 1, month_percentage = 10, expected_death_date = 4102444800000\<rparr>)
       4102704000000 = no_time_remaining
   \<and> hours (formatTimeRemaining (Some \<lparr>days_lived = 29220, days_remaining = - 3,
       life_percentage = 100, year_percentage = 1, month_percentage = 10,
       expected_death_date = 4102444800000\<rparr>) 4102704000000) < 24"
proof -
  let ?s = "\<lparr>days_lived = 29220, days_remaining = - 3, life_percentage = 100,
       year_percentage = 1, month_percentage = 10, expected_death_date = 4102444800000\<rparr>"
  have h: "expected_death_date ?s \<le> 4102704000000" by simp
  from h countdown_components_bounded [where stats = "Some ?s" and s = ?s and now = 4102704000000]
  show ?thesis by blast
qed

section \<open>Properties of the app entry\<close>

text \<open>
  C4. Once the check of the persisted state has run, the entry screen redirects to the
  main experience exactly when the stored \<open>onboardingCompleted\<close> reads as the string
  \<open>true\<close> and the stored \<open>userProfileId\<close> reads as non-null; for every other pair of
  stored values, and when either read rejects, it redirects to the onboarding flow.
\<close>

theorem onboarding_gate:
  "Index (fst (checkOnboardingStatus (scr, env))) =
     (if getItem ''onboardingCompleted'' env = Inr (Some ''true'')
         \<and> (\<exists>profileId. getItem ''userProfileId'' env = Inr (Some profileId))
      then Redirect ''/(tabs)'' else Redirect ''/onboarding'')"
  by (cases "getItem ''onboardingCompleted'' env"; cases "getItem ''userProfileId'' env")
     (auto simp: checkOnboardingStatus_def Index_def)

section \<open>Properties of the life calendar\<close>

lemma weekNumber_range:
  "rowIndex < 20 \<Longrightarrow> weekIndex < 52 \<Longrightarrow>
     1 \<le> weekNumber rowIndex weekIndex \<and> weekNumber rowIndex weekIndex \<le> 1040"
  by (simp add: weekNumber_def)

lemma life_calendar_nth:
  "rowIndex < 20 \<Longrightarrow> weekIndex < 52 \<Longrightarrow>
     life_calendar weeks_lived ! rowIndex ! weekIndex
       = weekDotStyles weeks_lived (weekNumber rowIndex weekIndex)"
  by (simp add: life_calendar_def)

lemma weekDotStyles_cases:
  "weekDotStyles weeks_lived n =
     (if n \<le> weeks_lived then [weekDot, weekDotLived]
      else if n = weeks_lived + 1 then [weekDot, weekDotCurrent]
      else [weekDot, weekDotRemaining])"
  by (simp add: weekDotStyles_def isLived_def isCurrent_def isRemaining_def)

lemma week_classes:
  "isLived weeks_lived n \<or> isCurrent weeks_lived n \<or> isRemaining weeks_lived n"
  "\<not> (isLived weeks_lived n \<and> isCurrent weeks_lived n)"
  "\<not> (isLived weeks_lived n \<and> isRemaining weeks_lived n)"
  "\<not> (isCurrent weeks_lived n \<and> isRemaining weeks_lived n)"
  unfolding isLived_def isCurrent_def isRemaining_def by linarith+

lemma weekDotStyles_by_class:
  "weekDotStyles weeks_lived n =
     (if isLived weeks_lived n then [weekDot, weekDotLived]
      else if isCurrent weeks_lived n then [weekDot, weekDotCurrent]
      else [weekDot, weekDotRemaining])"
  unfolding weekDotStyles_cases by (simp add: isLived_def isCurrent_def)

text \<open>
  C10. Every dot the life calendar renders (row below 20, column below 52) has a week
  number from 1 to 1040, and for every integer \<open>weeks_lived\<close> it is in exactly one of
  the classes lived, current and remaining: at least one holds, no two hold together,
  and the dot carries the style of that class only.
\<close>

theorem week_dot_one_class:
  assumes "rowIndex < 20" and "weekIndex < 52"
  defines "n \<equiv> weekNumber rowIndex weekIndex"
  shows "1 \<le> n \<and> n \<le> 1040
       \<and> (isLived weeks_lived n \<or> isCurrent weeks_lived n \<or> isRemaining weeks_lived n)
       \<and> \<not> (isLived weeks_lived n \<and> isCurrent weeks_lived n)
       \<and> \<not> (isLived weeks_lived n \<and> isRemaining weeks_lived n)
       \<and> \<not> (isCurrent weeks_lived n \<and> isRemaining weeks_lived n)
       \<and> life_calendar weeks_lived ! rowIndex ! weekIndex
           = (if isLived weeks_lived n then [weekDot, weekDotLived]
              else if isCurrent weeks_lived n then [weekDot, weekDotCurrent]
              else [weekDot, weekDotRemaining])"
proof -
  have "1 \<le> n \<and> n \<le> 1040"
    unfolding n_def using assms(1,2) by (rule weekNumber_range)
  moreover have "life_calendar weeks_lived ! rowIndex ! weekIndex = weekDotStyles weeks_lived n"
    unfolding n_def using assms(1,2) by (rule life_calendar_nth)
  ultimately show ?thesis
    using week_classes [of weeks_lived n] weekDotStyles_by_class [of weeks_lived n] by presburger
qed

theorem week_dot_one_class_witness:
  "(3::nat) < 20 \<and> (5::nat) < 52 \<and> weekNumber 3 5 = 162
   \<and> isRemaining 160 (weekNumber 3 5) \<and> \<not> isLived 160 (weekNumber 3 5)
   \<and> \<not> isCurrent 160 (weekNumber 3 5)
   \<and> life_calendar 160 ! 3 ! 5 = [weekDot, weekDotRemaining]"
proof -
  have h: "(3::nat) < 20" "(5::nat) < 52" by simp_all
  have n: "weekNumber 3 5 = 162" by (simp add: weekNumber_def)
  from week_dot_one_class [OF h, of 160] h n show ?thesis
    by (simp add: isLived_def isCurrent_def isRemaining_def)
qed

section \<open>Properties of the widget's refresh\<close>

lemma receive_frame:
  assumes "receive response setMortalityStats w = Some w1"
  shows "quote w1 = quote w" and "fetch_failed response \<Longrightarrow> w1 = w"
  using assms
  by (cases response; simp add: receive_def fetch_failed_def setMortalityStats_def
        split: if_splits option.splits; fastforce)+

lemma receive_quote_frame:
  assumes "receive response setQuote w = Some w2"
  shows "mortalityStats w2 = mortalityStats w" and "fetch_failed response \<Longrightarrow> w2 = w"
  using assms
  by (cases response; simp add: receive_def fetch_failed_def setQuote_def
        split: if_splits option.splits; fastforce)+

lemma receive_None_failed:
  "fetch_failed response \<Longrightarrow> receive response setter s = None \<or> receive response setter s = Some s"
  by (cases response) (simp_all add: receive_def fetch_failed_def)

lemma fetchData_widget_cases:
  "fst (fetchData rm rq (w, env)) =
     (if truthy (userProfileId w) then
        (case receive rm setMortalityStats w of
           None \<Rightarrow> w
         | Some w1 \<Rightarrow> (case receive rq setQuote w1 of None \<Rightarrow> w1 | Some w2 \<Rightarrow> w2))
      else w)"
  by (simp add: fetchData_def truthy_def Let_def split: option.splits)

lemma fetchData_env_frame:
  "alerts (snd (fetchData rm rq (w, env))) = alerts env"
  "navigation (snd (fetchData rm rq (w, env))) = navigation env"
  "items (snd (fetchData rm rq (w, env))) = items env"
  by (simp_all add: fetchData_def Let_def fetch_def console_error_def split: option.splits)

lemma fetchData_mortality_failed:
  assumes "fetch_failed rm"
  shows "mortalityStats (fst (fetchData rm rq (w, env))) = mortalityStats w"
proof (cases "receive rm setMortalityStats w")
  case None
  then show ?thesis by (simp add: fetchData_widget_cases)
next
  case (Some w1)
  from receive_frame(2) [OF Some assms] have "w1 = w" .
  with Some show ?thesis
    using receive_quote_frame(1) [of rq w]
    by (simp add: fetchData_widget_cases split: option.splits)
qed

lemma fetchData_quote_failed:
  assumes "fetch_failed rq"
  shows "quote (fst (fetchData rm rq (w, env))) = quote w"
proof (cases "receive rm setMortalityStats w")
  case None
  then show ?thesis by (simp add: fetchData_widget_cases)
next
  case (Some w1)
  from receive_None_failed [OF assms, of setQuote w1]
  have "(case receive rq setQuote w1 of None \<Rightarrow> w1 | Some w2 \<Rightarrow> w2) = w1"
    by (auto split: option.splits)
  with Some receive_frame(1) [OF Some] show ?thesis
    by (simp add: fetchData_widget_cases)
qed

lemma fetchData_mortality_rejected:
  "quote (fst (fetchData NetworkError rq (w, env))) = quote w"
  by (simp add: fetchData_widget_cases receive_def)

lemma fetchData_both_failed:
  assumes "fetch_failed rm" and "fetch_failed rq"
  shows "fst (fetchData rm rq (w, env)) = w"
proof (cases "receive rm setMortalityStats w")
  case None
  then show ?thesis by (simp add: fetchData_widget_cases)
next
  case (Some w1)
  from receive_frame(2) [OF Some assms(1)] have w1: "w1 = w" .
  from receive_None_failed [OF assms(2), of setQuote w]
  have "(case receive rq setQuote w of None \<Rightarrow> w | Some w2 \<Rightarrow> w2) = w"
    by (auto split: option.splits)
  with Some w1 show ?thesis by (simp add: fetchData_widget_cases)
qed

lemma fetchData_mortality_replaced:
  assumes "truthy (userProfileId w)"
  shows "mortalityStats (fst (fetchData (HttpResponse True (Some mortalityData)) rq (w, env)))
           = Some mortalityData"
proof -
  have r: "receive (HttpResponse True (Some mortalityData)) setMortalityStats w
             = Some (setMortalityStats mortalityData w)"
    by (simp add: receive_def)
  have m: "mortalityStats (setMortalityStats mortalityData w) = Some mortalityData"
    by (simp add: setMortalityStats_def)
  show ?thesis
  proof (cases "receive rq setQuote (setMortalityStats mortalityData w)")
    case None
    with assms r m show ?thesis by (simp add: fetchData_widget_cases)
  next
    case (Some w2)
    from receive_quote_frame(1) [OF Some] m have "mortalityStats w2 = Some mortalityData"
      by simp
    with assms r Some show ?thesis by (simp add: fetchData_widget_cases)
  qed
qed

lemma fetchData_quote_replaced:
  assumes "truthy (userProfileId w)"
    and "rm = HttpResponse False body \<or> rm = HttpResponse True (Some mortalityData)"
  shows "quote (fst (fetchData rm (HttpResponse True (Some quoteData)) (w, env)))
           = Some quoteData"
proof -
  obtain w1 where w1: "receive rm setMortalityStats w = Some w1"
    using assms(2) by (auto simp: receive_def)
  have "receive (HttpResponse True (Some quoteData)) setQuote w1 = Some (setQuote quoteData w1)"
    by (simp add: receive_def)
  with assms(1) w1 show ?thesis
    by (simp add: fetchData_widget_cases setQuote_def)
qed

text \<open>
  C3 (as amended). In a refresh, a fetch that fails (a rejected promise or a non-ok
  response) leaves the value it was fetching as it was: a failed mortality fetch keeps
  the stored snapshot, and the countdown computed from it, and a failed quote fetch keeps
  the stored quote; a rejected mortality fetch also ends the refresh before the quote is
  requested; when both fail the widget's state is unchanged altogether. The other value
  is still replaced when its own fetch succeeds: an ok mortality response with a body
  becomes the stored snapshot, from which the countdown is then computed, whatever
  happens to the quote fetch, and an ok quote response with a body becomes the stored
  quote when the mortality response was not ok or was ok with a body. No refresh, failed
  or not, raises an alert, navigates or writes to the store.
\<close>

theorem failed_fetch_keeps_value:
  fixes w :: widget and env :: world and now :: int
    and rm :: "MortalityStats fetch_outcome" and rq :: "Quote fetch_outcome"
    and mortalityData :: MortalityStats and quoteData :: Quote
    and body :: "MortalityStats option"
  defines "w' \<equiv> fst (fetchData rm rq (w, env))"
    and "env' \<equiv> snd (fetchData rm rq (w, env))"
  shows "(fetch_failed rm \<longrightarrow>
            mortalityStats w' = mortalityStats w
          \<and> formatTimeRemaining (mortalityStats w') now = formatTimeRemaining (mortalityStats w) now)
       \<and> (fetch_failed rq \<longrightarrow> quote w' = quote w)
       \<and> (rm = NetworkError \<longrightarrow> quote w' = quote w)
       \<and> (fetch_failed rm \<and> fetch_failed rq \<longrightarrow> w' = w)
       \<and> (truthy (userProfileId w) \<and> rm = HttpResponse True (Some mortalityData) \<longrightarrow>
            mortalityStats w' = Some mortalityData
          \<and> formatTimeRemaining (mortalityStats w') now
              = formatTimeRemaining (Some mortalityData) now)
       \<and> (truthy (userProfileId w) \<and> rq = HttpResponse True (Some quoteData)
            \<and> (rm = HttpResponse False body \<or> rm = HttpResponse True (Some mortalityData)) \<longrightarrow>
            quote w' = Some quoteData)
       \<and> alerts env' = alerts env \<and> navigation env' = navigation env
       \<and> items env' = items env"
proof -
  have a: "fetch_failed rm \<longrightarrow>
            mortalityStats w' = mortalityStats w
          \<and> formatTimeRemaining (mortalityStats w') now = formatTimeRemaining (mortalityStats w) now"
    unfolding w'_def by (simp add: fetchData_mortality_failed)
  have b: "fetch_failed rq \<longrightarrow> quote w' = quote w"
    unfolding w'_def by (simp add: fetchData_quote_failed)
  have c: "rm = NetworkError \<longrightarrow> quote w' = quote w"
    unfolding w'_def by (simp add: fetchData_mortality_rejected)
  have d: "fetch_failed rm \<and> fetch_failed rq \<longrightarrow> w' = w"
    unfolding w'_def by (simp add: fetchData_both_failed)
  have e: "truthy (userProfileId w) \<and> rm = HttpResponse True (Some mortalityData) \<longrightarrow>
            mortalityStats w' = Some mortalityData
          \<and> formatTimeRemaining (mortalityStats w') now
              = formatTimeRemaining (Some mortalityData) now"
    unfolding w'_def by (simp add: fetchData_mortality_replaced)
  have f: "truthy (userProfileId w) \<and> rq = HttpResponse True (Some quoteData)
            \<and> (rm = HttpResponse False body \<or> rm = HttpResponse True (Some mortalityData)) \<longrightarrow>
            quote w' = Some quoteData"
    unfolding w'_def using fetchData_quote_replaced [of w rm body mortalityData quoteData env]
    by blast
  have g: "alerts env' = alerts env \<and> navigation env' = navigation env
       \<and> items env' = items env"
    unfolding env'_def by (simp add: fetchData_env_frame)
  from a b c d e f g show ?thesis by blast
qed

theorem failed_fetch_keeps_value_witness:
  "fetch_failed (NetworkError :: MortalityStats fetch_outcome)
   \<and> fetch_failed (HttpResponse False None :: Quote fetch_outcome)
   \<and> fetch_failed (HttpResponse False None :: MortalityStats fetch_outcome)
   \<and> truthy (userProfileId loaded_widget)
   \<and> fst (fetchData NetworkError (HttpResponse False None) (loaded_widget, onboarded_world))
       = loaded_widget
   \<and> alerts (snd (fetchData NetworkError (HttpResponse False None)
         (loaded_widget, onboarded_world))) = []
   \<and> mortalityStats (fst (fetchData (HttpResponse False None)
         (HttpResponse True (Some other_quote)) (loaded_widget, onboarded_world)))
       = Some snapshot_2100
   \<and> quote (fst (fetchData (HttpResponse False None)
         (HttpResponse True (Some other_quote)) (loaded_widget, onboarded_world)))
       = Some other_quote
   \<and> mortalityStats (fst (fetchData (HttpResponse True (Some snapshot_2101))
         (HttpResponse False None) (loaded_widget, onboarded_world)))
       = Some snapshot_2101
   \<and> quote (fst (fetchData (HttpResponse True (Some snapshot_2101))
         (HttpResponse False None) (loaded_widget, onboarded_world)))
       = Some sample_quote
   \<and> mortalityStats (fst (fetchData (HttpResponse True (Some snapshot_2101))
         (HttpResponse True (Some other_quote)) (loaded_widget, onboarded_world)))
       = Some snapshot_2101
   \<and> quote (fst (fetchData (HttpResponse True (Some snapshot_2101))
         (HttpResponse True (Some other_quote)) (loaded_widget, onboarded_world)))
       = Some other_quote"
proof -
  have h: "fetch_failed (NetworkError :: MortalityStats fetch_outcome)"
    "fetch_failed (HttpResponse False None :: Quote fetch_outcome)"
    "fetch_failed (HttpResponse False None :: MortalityStats fetch_outcome)"
    "truthy (userProfileId loaded_widget)"
    by (simp_all add: fetch_failed_def truthy_def loaded_widget_def)
  have s: "mortalityStats loaded_widget = Some snapshot_2100"
    "quote loaded_widget = Some sample_quote" "alerts onboarded_world = []"
    by (simp_all add: loaded_widget_def onboarded_world_def)
  from h s failed_fetch_keeps_value
         [where rm = NetworkError and rq = "HttpResponse False None"
            and w = loaded_widget and env = onboarded_world]
  have both: "fst (fetchData NetworkError (HttpResponse False None)
        (loaded_widget, onboarded_world)) = loaded_widget
    \<and> alerts (snd (fetchData NetworkError (HttpResponse False None)
        (loaded_widget, onboarded_world))) = []"
    by simp
  from h s failed_fetch_keeps_value
         [where rm = "HttpResponse False None" and rq = "HttpResponse True (Some other_quote)"
            and w = loaded_widget and env = onboarded_world and body = None
            and quoteData = other_quote]
  have quote_only: "mortalityStats (fst (fetchData (HttpResponse False None)
         (HttpResponse True (Some other_quote)) (loaded_widget, onboarded_world)))
       = Some snapshot_2100
    \<and> quote (fst (fetchData (HttpResponse False None)
         (HttpResponse True (Some other_quote)) (loaded_widget, onboarded_world)))
       = Some other_quote"
    by simp
  from h s failed_fetch_keeps_value
         [where rm = "HttpResponse True (Some snapshot_2101)" and rq = "HttpResponse False None"
            and w = loaded_widget and env = onboarded_world
            and mortalityData = snapshot_2101]
  have stats_only: "mortalityStats (fst (fetchData (HttpResponse True (Some snapshot_2101))
         (HttpResponse False None) (loaded_widget, onboarded_world)))
       = Some snapshot_2101
    \<and> quote (fst (fetchData (HttpResponse True (Some snapshot_2101))
         (HttpResponse False None) (loaded_widget, onboarded_world)))
       = Some sample_quote"
    by simp
  from h s failed_fetch_keeps_value
         [where rm = "HttpResponse True (Some snapshot_2101)"
            and rq = "HttpResponse True (Some other_quote)"
            and w = loaded_widget and env = onboarded_world
            and mortalityData = snapshot_2101 and quoteData = other_quote]
  have neither: "mortalityStats (fst (fetchData (HttpResponse True (Some snapshot_2101))
         (HttpResponse True (Some other_quote)) (loaded_widget, onboarded_world)))
       = Some snapshot_2101
    \<and> quote (fst (fetchData (HttpResponse True (Some snapshot_2101))
         (HttpResponse True (Some other_quote)) (loaded_widget, onboarded_world)))
       = Some other_quote"
    by simp
  from h both quote_only stats_only neither show ?thesis by blast
qed

text \<open>
  C3 as stated fails: in a refresh whose quote fetch fails while the mortality fetch
  succeeds, the stored snapshot is replaced by the new one.
\<close>

theorem partial_failure_replaces_snapshot:
  "fetch_failed (HttpResponse False None :: Quote fetch_outcome)
   \<and> mortalityStats (fst (fetchData (HttpResponse True (Some snapshot_2101))
         (HttpResponse False None) (loaded_widget, onboarded_world))) = Some snapshot_2101
   \<and> mortalityStats (fst (fetchData (HttpResponse True (Some snapshot_2101))
         (HttpResponse False None) (loaded_widget, onboarded_world)))
       \<noteq> mortalityStats loaded_widget"
  by (simp add: fetch_failed_def fetchData_widget_cases truthy_def loaded_widget_def
        receive_def setMortalityStats_def setQuote_def snapshot_2100_def snapshot_2101_def)

section \<open>Properties of the refresh timer\<close>












section \<open>Properties of the displayed countdown\<close>













text \<open>
  The day count is taken from the remainder of a 365.25-day year and the hour count from
  the remainder of a day, and the year is not a whole number of days. With a year or more
  left, the hours therefore wrap where the days do not change: from 366 days left to one
  minute less, the pane goes from 1 year, 0 days, 0 hours, 0 minutes to 1 year, 0 days,
  23 hours, 59 minutes.
\<close>

lemma days_and_hours_out_of_step:
  "FloatingWidget loaded_widget 4070822400000
     = CountdownContent [(1, ''Years''), (0, ''Days''), (0, ''Hours''), (0, ''Min'')]
   \<and> FloatingWidget loaded_widget (4070822400000 + 60000)
     = CountdownContent [(1, ''Years''), (0, ''Days''), (23, ''Hours''), (59, ''Min'')]"
  by (simp add: FloatingWidget_def renderCountdownContent_def loaded_widget_def
        initial_widget_def formatTimeRemaining_def snapshot_2100_def Let_def)

section \<open>Properties of the screens' network flows\<close>

lemma updateGoalStatus_failed:
  assumes "fetch_failed response"
  shows "goals (fst (updateGoalStatus goalId newStatus response goalsResponse (scr, env)))
           = goals scr"
    and "alerts (snd (updateGoalStatus goalId newStatus response goalsResponse (scr, env)))
           = alerts env @ [(''Error'', ''Failed to update goal status'')]"
    and "items (snd (updateGoalStatus goalId newStatus response goalsResponse (scr, env)))
           = items env"
    and "requests (snd (updateGoalStatus goalId newStatus response goalsResponse (scr, env)))
           = requests env @ [Request ''PUT'' (''/api/goals/'' @ goalId)]"
  using assms
  by (cases response;
      simp add: updateGoalStatus_def fetch_failed_def Let_def alert_def console_error_def
        fetch_def)+

lemma fetchUserData_failed:
  assumes "fetch_failed rp \<or> fetch_failed rm \<or> fetch_failed rq"
  shows "fetchUserData profileId rp rm rq (scr, env) =
           (False, scr\<lparr>home_loading := False, refreshing := False\<rparr>,
            snd (snd (fetchUserData profileId rp rm rq (scr, env))))"
    and "alerts (snd (snd (fetchUserData profileId rp rm rq (scr, env)))) = alerts env"
    and "items (snd (snd (fetchUserData profileId rp rm rq (scr, env)))) = items env"
    and "rejecting (snd (snd (fetchUserData profileId rp rm rq (scr, env)))) = rejecting env"
    and "navigation (snd (snd (fetchUserData profileId rp rm rq (scr, env)))) = navigation env"
  using assms
  by (cases rp; cases rm; cases rq;
      simp add: fetchUserData_def fetch_failed_def Let_def console_error_def fetch_def
        split: option.splits; blast)+

lemma initializeUser_failed:
  assumes failed: "fetch_failed rp \<or> fetch_failed rm \<or> fetch_failed rq"
    and store: "rejecting env = []"
    and stored: "items env ''userProfileId'' = Some profileId" "profileId \<noteq> []"
      "items env ''onboardingCompleted'' = Some ''true''"
  shows "initializeUser rp rm rq (scr, env) =
           (scr\<lparr>home_loading := False, refreshing := False\<rparr>,
            router_replace ''/onboarding''
              ((snd (snd (fetchUserData profileId rp rm rq (scr, env))))
                 \<lparr>items := (items env)(''userProfileId'' := None,
                                            ''onboardingCompleted'' := None)\<rparr>))"
proof -
  obtain env1 where f: "fetchUserData profileId rp rm rq (scr, env) =
      (False, scr\<lparr>home_loading := False, refreshing := False\<rparr>, env1)"
    using fetchUserData_failed(1) [OF failed] by blast
  have e: "items env1 = items env" "rejecting env1 = []"
    using fetchUserData_failed(3,4) [OF failed, of profileId scr env] store by (simp_all add: f)
  show ?thesis
    using store stored e
    by (simp add: initializeUser_def getItem_def removeItem_def f Let_def)
qed

text \<open>
  C6 (as amended). A network or backend error (a rejected fetch or a non-ok response) is
  caught where the call is made. \<open>updateGoalStatus\<close> raises the alert
  "Failed to update goal status" and keeps the goals and the persisted keys.
  \<open>fetchUserData\<close> raises no alert: it returns false and keeps the profile, statistics,
  quote and error state it had, and the persisted keys. On the initial load,
  \<open>initializeUser\<close> answers that false by removing both persisted keys and navigating
  to the onboarding flow, again with no alert.
\<close>

theorem network_error_handling:
  fixes scr :: "'g goals_screen" and hs :: "('p, 'm, 'q) home_screen" and env :: world
    and response :: "unit fetch_outcome" and goalsResponse :: "'g list fetch_outcome"
    and rp :: "'p fetch_outcome" and rm :: "'m fetch_outcome" and rq :: "'q fetch_outcome"
    and goalId profileId :: string and newStatus :: goal_status
  defines "updated \<equiv> updateGoalStatus goalId newStatus response goalsResponse (scr, env)"
    and "fetched \<equiv> fetchUserData profileId rp rm rq (hs, env)"
    and "initialized \<equiv> initializeUser rp rm rq (hs, env)"
  shows "(fetch_failed response \<longrightarrow>
            goals (fst updated) = goals scr
          \<and> alerts (snd updated) = alerts env @ [(''Error'', ''Failed to update goal status'')]
          \<and> items (snd updated) = items env)
       \<and> (fetch_failed rp \<or> fetch_failed rm \<or> fetch_failed rq \<longrightarrow>
            fst fetched = False
          \<and> fst (snd fetched) = hs\<lparr>home_loading := False, refreshing := False\<rparr>
          \<and> alerts (snd (snd fetched)) = alerts env
          \<and> items (snd (snd fetched)) = items env)
       \<and> ((fetch_failed rp \<or> fetch_failed rm \<or> fetch_failed rq) \<and> rejecting env = []
            \<and> items env ''userProfileId'' = Some profileId \<and> profileId \<noteq> []
            \<and> items env ''onboardingCompleted'' = Some ''true'' \<longrightarrow>
            items (snd initialized) ''userProfileId'' = None
          \<and> items (snd initialized) ''onboardingCompleted'' = None
          \<and> navigation (snd initialized) = navigation env @ [''/onboarding'']
          \<and> alerts (snd initialized) = alerts env
          \<and> error (fst initialized) = error hs)"
proof -
  have a: "fetch_failed response \<longrightarrow>
            goals (fst updated) = goals scr
          \<and> alerts (snd updated) = alerts env @ [(''Error'', ''Failed to update goal status'')]
          \<and> items (snd updated) = items env"
    unfolding updated_def by (simp add: updateGoalStatus_failed)
  have b: "fetch_failed rp \<or> fetch_failed rm \<or> fetch_failed rq \<longrightarrow>
            fst fetched = False
          \<and> fst (snd fetched) = hs\<lparr>home_loading := False, refreshing := False\<rparr>
          \<and> alerts (snd (snd fetched)) = alerts env
          \<and> items (snd (snd fetched)) = items env"
  proof
    assume f: "fetch_failed rp \<or> fetch_failed rm \<or> fetch_failed rq"
    from fetchUserData_failed(1) [OF f, of profileId hs env]
    have "fst fetched = False"
      and "fst (snd fetched) = hs\<lparr>home_loading := False, refreshing := False\<rparr>"
      unfolding fetched_def by (metis fst_conv, metis fst_conv snd_conv)
    with fetchUserData_failed(2,3) [OF f, of profileId hs env]
    show "fst fetched = False
          \<and> fst (snd fetched) = hs\<lparr>home_loading := False, refreshing := False\<rparr>
          \<and> alerts (snd (snd fetched)) = alerts env
          \<and> items (snd (snd fetched)) = items env"
      unfolding fetched_def by blast
  qed
  have c: "(fetch_failed rp \<or> fetch_failed rm \<or> fetch_failed rq) \<and> rejecting env = []
            \<and> items env ''userProfileId'' = Some profileId \<and> profileId \<noteq> []
            \<and> items env ''onboardingCompleted'' = Some ''true'' \<longrightarrow>
            items (snd initialized) ''userProfileId'' = None
          \<and> items (snd initialized) ''onboardingCompleted'' = None
          \<and> navigation (snd initialized) = navigation env @ [''/onboarding'']
          \<and> alerts (snd initialized) = alerts env
          \<and> error (fst initialized) = error hs"
  proof
    assume h: "(fetch_failed rp \<or> fetch_failed rm \<or> fetch_failed rq) \<and> rejecting env = []
            \<and> items env ''userProfileId'' = Some profileId \<and> profileId \<noteq> []
            \<and> items env ''onboardingCompleted'' = Some ''true''"
    then have f: "fetch_failed rp \<or> fetch_failed rm \<or> fetch_failed rq" by blast
    from h have i: "initialized =
           (hs\<lparr>home_loading := False, refreshing := False\<rparr>,
            router_replace ''/onboarding''
              ((snd (snd (fetchUserData profileId rp rm rq (hs, env))))
                 \<lparr>items := (items env)(''userProfileId'' := None,
                                            ''onboardingCompleted'' := None)\<rparr>))"
      unfolding initialized_def by (intro initializeUser_failed) blast+
    show "items (snd initialized) ''userProfileId'' = None
          \<and> items (snd initialized) ''onboardingCompleted'' = None
          \<and> navigation (snd initialized) = navigation env @ [''/onboarding'']
          \<and> alerts (snd initialized) = alerts env
          \<and> error (fst initialized) = error hs"
      unfolding i
      using fetchUserData_failed(2,5) [OF f, of profileId hs env]
      by (simp add: router_replace_def)
  qed
  from a b c show ?thesis by blast
qed

theorem network_error_handling_witness:
  "fetch_failed (HttpResponse False None :: unit fetch_outcome)
   \<and> fetch_failed (NetworkError :: unit fetch_outcome)
   \<and> rejecting onboarded_world = []
   \<and> items onboarded_world ''userProfileId'' = Some ''p1'' \<and> ''p1'' \<noteq> []
   \<and> items onboarded_world ''onboardingCompleted'' = Some ''true''
   \<and> goals (fst (updateGoalStatus ''g1'' Completed (HttpResponse False None) NetworkError
         (sample_goals_screen, onboarded_world))) = [''Run a marathon'']
   \<and> alerts (snd (updateGoalStatus ''g1'' Completed (HttpResponse False None) NetworkError
         (sample_goals_screen, onboarded_world))) = [(''Error'', ''Failed to update goal status'')]
   \<and> fst (fetchUserData ''p1'' (NetworkError :: unit fetch_outcome)
         (HttpResponse True (Some ())) (HttpResponse True (Some ()))
         (initial_home_screen, onboarded_world)) = False
   \<and> items (snd (initializeUser (NetworkError :: unit fetch_outcome)
         (HttpResponse True (Some ())) (HttpResponse True (Some ()))
         (initial_home_screen, onboarded_world))) ''userProfileId'' = None
   \<and> navigation (snd (initializeUser (NetworkError :: unit fetch_outcome)
         (HttpResponse True (Some ())) (HttpResponse True (Some ()))
         (initial_home_screen, onboarded_world))) = [''/onboarding'']"
proof -
  have h: "fetch_failed (HttpResponse False None :: unit fetch_outcome)"
    "fetch_failed (NetworkError :: unit fetch_outcome)"
    "rejecting onboarded_world = []"
    "items onboarded_world ''userProfileId'' = Some ''p1''" "''p1'' \<noteq> []"
    "items onboarded_world ''onboardingCompleted'' = Some ''true''"
    by (simp_all add: fetch_failed_def onboarded_world_def)
  have g: "goals sample_goals_screen = [''Run a marathon'']"
    "alerts onboarded_world = []" "navigation onboarded_world = []"
    by (simp_all add: sample_goals_screen_def onboarded_world_def)
  from h g network_error_handling
      [where response = "HttpResponse False None" and goalsResponse = NetworkError
         and scr = sample_goals_screen and env = onboarded_world and goalId = "''g1''"
         and newStatus = Completed and profileId = "''p1''"
         and rp = "NetworkError :: unit fetch_outcome"
         and rm = "HttpResponse True (Some ())" and rq = "HttpResponse True (Some ())"
         and hs = initial_home_screen]
  show ?thesis by simp
qed

text \<open>
  C6 as stated fails: when the profile request of the initial load is rejected, the home
  screen raises no alert and both persisted keys are gone afterwards.
\<close>

theorem failed_initial_load_forgets_profile:
  "items onboarded_world ''userProfileId'' = Some ''p1''
   \<and> items onboarded_world ''onboardingCompleted'' = Some ''true''
   \<and> items (snd (initializeUser (NetworkError :: unit fetch_outcome)
         (HttpResponse True (Some ())) (HttpResponse True (Some ()))
         (initial_home_screen, onboarded_world))) ''userProfileId'' = None
   \<and> items (snd (initializeUser (NetworkError :: unit fetch_outcome)
         (HttpResponse True (Some ())) (HttpResponse True (Some ()))
         (initial_home_screen, onboarded_world))) ''onboardingCompleted'' = None
   \<and> alerts (snd (initializeUser (NetworkError :: unit fetch_outcome)
         (HttpResponse True (Some ())) (HttpResponse True (Some ()))
         (initial_home_screen, onboarded_world))) = []"
  by (simp add: initializeUser_def fetchUserData_def getItem_def removeItem_def
        onboarded_world_def router_replace_def console_error_def fetch_def Let_def)

section \<open>Properties of input validation\<close>

text \<open>
  What the three validations do reject, each before any request, with an alert and with
  the store untouched: a birth date that fails the pattern, that the platform cannot
  parse, or that lies after now; a life expectancy that is a number below 20 or above
  120; a goal title that is empty or white space only.
\<close>

lemma validateBirthDate_rejects:
  assumes "\<not> dateRegex_test dateString \<or> getTime dateString = None
           \<or> (\<exists>date. getTime dateString = Some date \<and> now < date)"
  shows "\<not> validateBirthDate getTime now dateString"
  using assms by (auto simp: validateBirthDate_def split: option.splits)

lemma invalid_birth_date_rejected:
  assumes "currentStep scr = 1" and "\<not> validateBirthDate getTime now (birthDate scr)"
  shows "handleNext getTime now response errorText (scr, env) =
           (scr, alert ''Invalid Date''
                   ''Please enter a valid birth date in YYYY-MM-DD format (e.g., 1990-12-25)''
                   env)"
    and "requests (snd (handleNext getTime now response errorText (scr, env))) = requests env"
    and "items (snd (handleNext getTime now response errorText (scr, env))) = items env"
  using assms by (simp_all add: handleNext_def alert_def)

lemma out_of_range_life_expectancy_rejected:
  assumes "finalLifeExpectancy scr = Some n" and "n < 20 \<or> 120 < n"
  shows "handleComplete response errorText (scr, env) =
           (scr\<lparr>loading := False\<rparr>,
            alert ''Invalid Life Expectancy''
              ''Please enter a life expectancy between 20 and 120 years.'' env)"
    and "requests (snd (handleComplete response errorText (scr, env))) = requests env"
    and "items (snd (handleComplete response errorText (scr, env))) = items env"
  using assms
  by (auto simp: handleComplete_def number_less_def number_greater_def alert_def Let_def)

lemma blank_goal_title_rejected:
  assumes "trim (title scr) = []"
  shows "fst (createGoal response goalsResponse (scr, env)) = scr"
    and "requests (snd (createGoal response goalsResponse (scr, env))) = requests env"
    and "items (snd (createGoal response goalsResponse (scr, env))) = items env"
    and "alerts (snd (createGoal response goalsResponse (scr, env))) =
           alerts env @ [if truthy (goals_userProfileId scr)
                         then (''Validation Error'', ''Please enter a goal title'')
                         else (''Error'', ''User profile not found'')]"
  using assms by (simp_all add: createGoal_def alert_def)

lemma trim_blank: "trim str = [] \<longleftrightarrow> (\<forall>c \<in> set str. is_white_space c)"
proof
  assume "trim str = []"
  then have all: "\<forall>c \<in> set (dropWhile is_white_space str). is_white_space c"
    by (simp add: trim_def dropWhile_eq_Nil_conv)
  have "dropWhile is_white_space str = []"
  proof (rule ccontr)
    assume ne: "dropWhile is_white_space str \<noteq> []"
    then have "\<not> is_white_space (hd (dropWhile is_white_space str))"
      by (rule hd_dropWhile)
    moreover have "hd (dropWhile is_white_space str) \<in> set (dropWhile is_white_space str)"
      using ne by (rule hd_in_set)
    ultimately show False using all by blast
  qed
  then show "\<forall>c \<in> set str. is_white_space c"
    by (simp add: dropWhile_eq_Nil_conv)
next
  assume "\<forall>c \<in> set str. is_white_space c"
  then have e: "dropWhile is_white_space str = []"
    by (simp add: dropWhile_eq_Nil_conv)
  show "trim str = []"
    unfolding trim_def e by simp
qed

text \<open>
  C5. An entry that is not a life expectancy between 20 and 120 has to be rejected with
  a message before any request. A custom life expectancy with no digit in it, such as a
  lone minus sign, is not: \<open>parseInt\<close> gives NaN, neither comparison with NaN holds, and
  the flow goes on to post the profile (here the request is then rejected, which raises
  the alert of a failed setup rather than that of an invalid life expectancy).
\<close>

theorem minus_sign_life_expectancy_is_posted:
  "finalLifeExpectancy minus_sign_screen = None
   \<and> requests (snd (handleNext getTime now NetworkError None (minus_sign_screen, onboarded_world)))
       = [Request ''POST'' ''/api/profile'']
   \<and> alerts (snd (handleNext getTime now NetworkError None (minus_sign_screen, onboarded_world)))
       = [(''Error'', ''Failed to complete setup. Please try again.'')]"
  by (simp add: handleNext_def handleComplete_def finalLifeExpectancy_def minus_sign_screen_def
        parseInt_def is_white_space_def is_radix_digit_def digit_value_def number_less_def
        number_greater_def onboarded_world_def fetch_def alert_def console_error_def Let_def)

end
